theory Spec2Isabelle
  imports Main "HOL-Library.Word" "HOL-Library.Sublist"
begin

section \<open>The chat session controller of chat-interface.tsx\<close>

text \<open>
  The component \<^verbatim>\<open>ChatInterface\<close> holds three React state cells:
  \<^verbatim>\<open>messages\<close>, \<^verbatim>\<open>input\<close> and \<^verbatim>\<open>isLoading\<close>. Its handlers are
  \<^verbatim>\<open>handleSend\<close> (an async function with one \<^verbatim>\<open>await\<close>),
  \<^verbatim>\<open>handleKeyPress\<close> and \<^verbatim>\<open>handleSampleQuestion\<close>; the text area calls
  \<^verbatim>\<open>setInput\<close> directly. The embedding passes the three cells as a record. Every
  handler reads the cells of the latest render: React re-renders after each discrete
  event before the next one is dispatched, so a handler never runs against a stale
  \<^verbatim>\<open>isLoading\<close>. The one value that is deliberately captured is the \<^verbatim>\<open>input\<close>
  of the render in which \<^verbatim>\<open>handleSend\<close> started: the code after the \<^verbatim>\<open>await\<close>
  still sees it, although the cell has been cleared.
\<close>

subsection \<open>JavaScript strings and numbers\<close>

text \<open>
  A JavaScript string is a sequence of UTF-16 code units. Literals of the source that
  are plain ASCII are written with \<open>js\<close>; other code units (the bullet U+2022, the
  line feed) are spliced in by number.
\<close>

type_synonym jsstring = "16 word list"

definition js :: "string \<Rightarrow> jsstring" where
  "js s = map (\<lambda>c. of_nat (of_char c)) s"

text \<open>
  \<^verbatim>\<open>String.prototype.trim\<close> removes leading and trailing code units that are
  WhiteSpace or LineTerminator in ECMAScript: TAB, LF, VT, FF, CR, SP, NBSP, U+1680,
  U+2000 to U+200A, U+2028, U+2029, U+202F, U+205F, U+3000 and the byte order mark.
\<close>

definition isWhiteSpace :: "16 word \<Rightarrow> bool" where
  "isWhiteSpace c \<longleftrightarrow>
     c \<in> {0x0009, 0x000A, 0x000B, 0x000C, 0x000D, 0x0020, 0x00A0, 0x1680,
          0x2028, 0x2029, 0x202F, 0x205F, 0x3000, 0xFEFF}
     \<or> (0x2000 \<le> c \<and> c \<le> 0x200A)"

definition trim :: "jsstring \<Rightarrow> jsstring" where
  "trim s = rev (dropWhile isWhiteSpace (rev (dropWhile isWhiteSpace s)))"

text \<open>A string in a boolean position is true exactly when it is not empty.\<close>

definition truthy :: "jsstring \<Rightarrow> bool" where
  "truthy s \<longleftrightarrow> s \<noteq> []"

text \<open>
  \<^verbatim>\<open>Date.now()\<close> is an integer number of milliseconds (its absolute value is at
  most 8.64e15, so adding one is exact and \<^verbatim>\<open>toString\<close> prints plain decimal
  digits, with a minus sign before the epoch).
\<close>

fun digits :: "nat \<Rightarrow> jsstring" where
  "digits n = (if n < 10 then [of_nat (48 + n)]
               else digits (n div 10) @ [of_nat (48 + n mod 10)])"

declare digits.simps [simp del]

definition toString :: "int \<Rightarrow> jsstring" where
  "toString i = (if i < 0 then 0x2D # digits (nat (- i)) else digits (nat i))"

subsection \<open>Messages and the state cells\<close>

datatype role = User | Assistant

text \<open>
  The interface \<^verbatim>\<open>Message\<close>. The field \<^verbatim>\<open>error\<close> is optional: \<open>None\<close> is a
  message object without it. \<^verbatim>\<open>timestamp\<close> is the millisecond value of the
  \<^verbatim>\<open>Date\<close> object.
\<close>

record message =
  id_msg :: jsstring
  content :: jsstring
  role :: role
  timestamp :: int
  error :: "bool option"

text \<open>The renderer tests \<^verbatim>\<open>message.error\<close> for truth; a missing field is false.\<close>

definition isError :: "message \<Rightarrow> bool" where
  "isError m \<longleftrightarrow> error m = Some True"

record session =
  messages :: "message list"
  input :: jsstring
  isLoading :: bool

definition greeting :: jsstring where
  "greeting = js ''Hello! I'm EconoGraph, your Federal Reserve Economic Data assistant. I can help you understand economic trends, analyze FRED data, and answer questions about monetary policy. What would you like to explore today?''"

text \<open>The initial values of the three \<^verbatim>\<open>useState\<close> cells; \<open>date\<close> is \<^verbatim>\<open>new Date()\<close>.\<close>

definition ChatInterface :: "int \<Rightarrow> session" where
  "ChatInterface date =
     \<lparr>messages = [\<lparr>id_msg = js ''1'', content = greeting, role = Assistant,
                   timestamp = date, error = None\<rparr>],
      input = [],
      isLoading = False\<rparr>"

subsection \<open>The handlers\<close>

definition setInput :: "jsstring \<Rightarrow> session \<Rightarrow> session" where
  "setInput v s = s\<lparr>input := v\<rparr>"

definition handleSampleQuestion :: "jsstring \<Rightarrow> session \<Rightarrow> session" where
  "handleSampleQuestion question s = setInput question s"

definition userMessage :: "int \<Rightarrow> int \<Rightarrow> jsstring \<Rightarrow> message" where
  "userMessage now date inp =
     \<lparr>id_msg = toString now, content = inp, role = User, timestamp = date, error = None\<rparr>"

definition reply_head :: jsstring where
  "reply_head = js ''I received your question: \"''"

definition reply_tail :: jsstring where
  "reply_tail =
     js ''\". This is a demo response. In the full version, I would analyze FRED economic data and provide insights about your query using my knowledge of Federal Reserve data, economic indicators, and monetary policy.''
     @ [0x0A, 0x0A] @ js ''Here are some key points I would typically cover:''
     @ [0x0A, 0x2022] @ js '' Current economic indicators and trends''
     @ [0x0A, 0x2022] @ js '' Historical data context and comparisons''
     @ [0x0A, 0x2022] @ js '' Federal Reserve policy implications''
     @ [0x0A, 0x2022] @ js '' Data visualization and charts''
     @ [0x0A, 0x0A] @ js ''Would you like me to elaborate on any specific aspect?''"

definition assistantMessage :: "int \<Rightarrow> int \<Rightarrow> jsstring \<Rightarrow> message" where
  "assistantMessage now date inp =
     \<lparr>id_msg = toString (now + 1), content = reply_head @ inp @ reply_tail,
      role = Assistant, timestamp = date, error = None\<rparr>"

definition error_text :: jsstring where
  "error_text = js ''I'm sorry, I encountered an error processing your request. Please try again or check if the backend service is running.''"

definition errorMessage :: "int \<Rightarrow> int \<Rightarrow> message" where
  "errorMessage now date =
     \<lparr>id_msg = toString (now + 1), content = error_text,
      role = Assistant, timestamp = date, error = Some True\<rparr>"

text \<open>
  \<^verbatim>\<open>handleSend\<close> up to its \<^verbatim>\<open>await\<close>. \<open>now\<close> is the reading of
  \<^verbatim>\<open>Date.now()\<close> and \<open>date\<close> that of \<^verbatim>\<open>new Date()\<close>. The second component of
  the result is the suspended rest of the function: \<open>None\<close> when the guard returned
  early, otherwise the \<^verbatim>\<open>input\<close> that the suspended code has captured.
\<close>

definition handleSend :: "int \<Rightarrow> int \<Rightarrow> session \<Rightarrow> session \<times> jsstring option" where
  "handleSend now date s =
     (if \<not> truthy (trim (input s)) \<or> isLoading s then (s, None)
      else (s\<lparr>messages := messages s @ [userMessage now date (input s)],
              input := [],
              isLoading := True\<rparr>,
            Some (input s)))"

text \<open>How the awaited promise settles, and the promise the source awaits: its executor
  hands \<^verbatim>\<open>resolve\<close> to \<^verbatim>\<open>setTimeout\<close> and never rejects.\<close>

datatype settled = Fulfilled | Rejected

definition setTimeout_promise :: "jsstring \<Rightarrow> settled" where
  "setTimeout_promise inp = Fulfilled"

text \<open>
  The rest of \<^verbatim>\<open>handleSend\<close>, run when the promise has settled: the remainder of the
  \<^verbatim>\<open>try\<close> block when it was fulfilled, the \<^verbatim>\<open>catch\<close> block when it was rejected,
  then the \<^verbatim>\<open>finally\<close> block. \<open>inp\<close> is the captured \<^verbatim>\<open>input\<close>; the state is the
  current one, since \<^verbatim>\<open>setMessages\<close> is given an updater function.
\<close>

definition handleSend_resume :: "settled \<Rightarrow> int \<Rightarrow> int \<Rightarrow> jsstring \<Rightarrow> session \<Rightarrow> session" where
  "handleSend_resume outcome now date inp s =
     (let s1 = (case outcome of
                  Fulfilled \<Rightarrow> s\<lparr>messages := messages s @ [assistantMessage now date inp]\<rparr>
                | Rejected \<Rightarrow> s\<lparr>messages := messages s @ [errorMessage now date]\<rparr>)
      in s1\<lparr>isLoading := False\<rparr>)"

definition handleKeyPress ::
  "jsstring \<Rightarrow> bool \<Rightarrow> int \<Rightarrow> int \<Rightarrow> session \<Rightarrow> session \<times> jsstring option" where
  "handleKeyPress key shiftKey now date s =
     (if key = js ''Enter'' \<and> \<not> shiftKey then handleSend now date s else (s, None))"

subsection \<open>The rendered controls and the event loop\<close>

text \<open>The \<^verbatim>\<open>disabled\<close> attributes of the text area, the send button and the sample
  question buttons, and the texts of the three sample buttons.\<close>

definition textarea_disabled :: "session \<Rightarrow> bool" where
  "textarea_disabled s = isLoading s"

definition send_disabled :: "session \<Rightarrow> bool" where
  "send_disabled s \<longleftrightarrow> \<not> truthy (trim (input s)) \<or> isLoading s"

definition sample_disabled :: "session \<Rightarrow> bool" where
  "sample_disabled s = isLoading s"

definition sample_questions :: "jsstring list" where
  "sample_questions =
     [js ''What's the current unemployment rate trend?'',
      js ''Explain inflation and interest rates relationship'',
      js ''Show me recent GDP growth data'']"

text \<open>
  The mounted component: the state cells and the suspended calls of \<^verbatim>\<open>handleSend\<close>,
  oldest first (each timer runs for the same 2000 ms), each with its captured input.
\<close>

record system =
  ui :: session
  inflight :: "jsstring list"

definition mount :: "int \<Rightarrow> system" where
  "mount date = \<lparr>ui = ChatInterface date, inflight = []\<rparr>"

datatype event =
    Change jsstring
  | KeyPress jsstring bool int int
  | ClickSend int int
  | ClickSample nat
  | TimerFires int int

definition launch :: "session \<times> jsstring option \<Rightarrow> system \<Rightarrow> system" where
  "launch r sys =
     \<lparr>ui = fst r,
      inflight = inflight sys @ (case snd r of None \<Rightarrow> [] | Some inp \<Rightarrow> [inp])\<rparr>"

text \<open>
  One turn of the event loop. A disabled control delivers no event. \<open>awaited\<close> says how
  the promise awaited by a call with a given captured input settles; the source awaits
  \<open>setTimeout_promise\<close>.
\<close>

fun stepWith :: "(jsstring \<Rightarrow> settled) \<Rightarrow> event \<Rightarrow> system \<Rightarrow> system" where
  "stepWith awaited (Change v) sys =
     (if textarea_disabled (ui sys) then sys else sys\<lparr>ui := setInput v (ui sys)\<rparr>)"
| "stepWith awaited (KeyPress key shiftKey now date) sys =
     (if textarea_disabled (ui sys) then sys
      else launch (handleKeyPress key shiftKey now date (ui sys)) sys)"
| "stepWith awaited (ClickSend now date) sys =
     (if send_disabled (ui sys) then sys else launch (handleSend now date (ui sys)) sys)"
| "stepWith awaited (ClickSample i) sys =
     (if sample_disabled (ui sys) \<or> length sample_questions \<le> i then sys
      else sys\<lparr>ui := handleSampleQuestion (sample_questions ! i) (ui sys)\<rparr>)"
| "stepWith awaited (TimerFires now date) sys =
     (case inflight sys of
        [] \<Rightarrow> sys
      | inp # rest \<Rightarrow>
          \<lparr>ui = handleSend_resume (awaited inp) now date inp (ui sys), inflight = rest\<rparr>)"

fun runWith :: "(jsstring \<Rightarrow> settled) \<Rightarrow> event list \<Rightarrow> system \<Rightarrow> system" where
  "runWith awaited [] sys = sys"
| "runWith awaited (e # es) sys = runWith awaited es (stepWith awaited e sys)"

definition step :: "event \<Rightarrow> system \<Rightarrow> system" where
  "step = stepWith setTimeout_promise"

definition run :: "event list \<Rightarrow> system \<Rightarrow> system" where
  "run = runWith setTimeout_promise"

text \<open>
  At most one call of \<^verbatim>\<open>handleSend\<close> is suspended, and exactly while
  \<^verbatim>\<open>isLoading\<close> is true.
\<close>

definition outstanding_ok :: "system \<Rightarrow> bool" where
  "outstanding_ok sys \<longleftrightarrow>
     (if isLoading (ui sys) then length (inflight sys) = 1 else inflight sys = [])"

subsection \<open>Auxiliary facts\<close>

lemma dropWhile_all_iff: "(\<forall>c\<in>set (dropWhile P s). P c) \<longleftrightarrow> dropWhile P s = []"
proof (cases "dropWhile P s")
  case Nil
  then show ?thesis by (auto dest: set_dropWhileD)
next
  case (Cons a as)
  then have "\<not> P a" using hd_dropWhile [of P s] by simp
  with Cons show ?thesis by auto
qed

lemma trim_Nil_iff: "trim s = [] \<longleftrightarrow> (\<forall>c\<in>set s. isWhiteSpace c)"
proof -
  have "trim s = [] \<longleftrightarrow> (\<forall>c\<in>set (dropWhile isWhiteSpace s). isWhiteSpace c)"
    by (simp add: trim_def dropWhile_eq_Nil_conv)
  also have "\<dots> \<longleftrightarrow> dropWhile isWhiteSpace s = []"
    by (rule dropWhile_all_iff)
  also have "\<dots> \<longleftrightarrow> (\<forall>c\<in>set s. isWhiteSpace c)"
    by (simp only: dropWhile_eq_Nil_conv)
  finally show ?thesis .
qed

lemma trim_hi: "trim (js ''hi'') \<noteq> []"
  by (simp add: trim_def js_def isWhiteSpace_def)

lemma handleSend_guard:
  "\<not> truthy (trim (input s)) \<or> isLoading s \<Longrightarrow> handleSend now date s = (s, None)"
  by (simp add: handleSend_def)

lemma handleSend_pass:
  "truthy (trim (input s)) \<Longrightarrow> \<not> isLoading s \<Longrightarrow>
   handleSend now date s =
     (s\<lparr>messages := messages s @ [userMessage now date (input s)], input := [],
        isLoading := True\<rparr>, Some (input s))"
  by (simp add: handleSend_def)

lemma handleSend_prefix: "prefix (messages s) (messages (fst (handleSend now date s)))"
  by (simp add: handleSend_def)

lemma handleKeyPress_prefix:
  "prefix (messages s) (messages (fst (handleKeyPress key shiftKey now date s)))"
  by (simp add: handleKeyPress_def handleSend_prefix)

lemma resume_prefix:
  "prefix (messages s) (messages (handleSend_resume outcome now date inp s))"
  by (cases outcome) (simp_all add: handleSend_resume_def)

lemma stepWith_prefix: "prefix (messages (ui sys)) (messages (ui (stepWith aw e sys)))"
proof (cases e)
  case (TimerFires now date)
  then show ?thesis by (cases "inflight sys") (simp_all add: resume_prefix)
qed (simp_all add: setInput_def handleSampleQuestion_def launch_def
       handleSend_prefix handleKeyPress_prefix)

lemma runWith_prefix: "prefix (messages (ui sys)) (messages (ui (runWith aw es sys)))"
proof (induction es arbitrary: sys)
  case Nil
  show ?case by simp
next
  case (Cons e es)
  have "prefix (messages (ui sys)) (messages (ui (stepWith aw e sys)))"
    by (rule stepWith_prefix)
  also have "prefix \<dots> (messages (ui (runWith aw es (stepWith aw e sys))))"
    by (rule Cons.IH)
  finally show ?case by simp
qed

lemma runWith_append: "runWith aw (es1 @ es2) sys = runWith aw es2 (runWith aw es1 sys)"
  by (induction es1 arbitrary: sys) simp_all

lemma outstanding_ok_mount: "outstanding_ok (mount date)"
  by (simp add: outstanding_ok_def mount_def ChatInterface_def)

lemma outstanding_ok_launch:
  assumes "outstanding_ok sys"
  shows "outstanding_ok (launch (handleSend now date (ui sys)) sys)"
  using assms by (simp add: outstanding_ok_def launch_def handleSend_def)

lemma outstanding_ok_stepWith:
  assumes "outstanding_ok sys"
  shows "outstanding_ok (stepWith aw e sys)"
proof (cases e)
  case (Change v)
  with assms show ?thesis by (simp add: outstanding_ok_def setInput_def)
next
  case (KeyPress key shiftKey now date)
  show ?thesis
  proof (cases "key = js ''Enter'' \<and> \<not> shiftKey")
    case True
    with KeyPress assms outstanding_ok_launch [OF assms, of now date] show ?thesis
      by (simp add: handleKeyPress_def)
  next
    case False
    with KeyPress assms show ?thesis
      by (auto simp add: handleKeyPress_def launch_def outstanding_ok_def)
  qed
next
  case (ClickSend now date)
  with assms outstanding_ok_launch [OF assms, of now date] show ?thesis by simp
next
  case (ClickSample i)
  with assms show ?thesis
    by (simp add: outstanding_ok_def handleSampleQuestion_def setInput_def)
next
  case (TimerFires now date)
  show ?thesis
  proof (cases "inflight sys")
    case Nil
    with TimerFires assms show ?thesis by simp
  next
    case (Cons inp rest)
    with assms have "rest = []"
      by (cases "isLoading (ui sys)") (simp_all add: outstanding_ok_def)
    with Cons TimerFires show ?thesis
      by (simp add: outstanding_ok_def handleSend_resume_def)
  qed
qed

lemma outstanding_ok_runWith:
  "outstanding_ok sys \<Longrightarrow> outstanding_ok (runWith aw es sys)"
  by (induction es arbitrary: sys) (simp_all add: outstanding_ok_stepWith)

lemma loading_step_idle:
  assumes "isLoading (ui sys)" and "\<forall>n d. e \<noteq> TimerFires n d"
  shows "stepWith aw e sys = sys"
  using assms
  by (cases e) (simp_all add: textarea_disabled_def send_disabled_def sample_disabled_def)

lemma loading_run_idle:
  assumes "isLoading (ui sys)" and "\<forall>n d. TimerFires n d \<notin> set mid"
  shows "runWith aw mid sys = sys"
  using assms
proof (induction mid)
  case Nil
  show ?case by simp
next
  case (Cons e mid)
  from Cons.prems have "\<forall>n d. e \<noteq> TimerFires n d" by auto
  with Cons.prems have "stepWith aw e sys = sys" by (simp add: loading_step_idle)
  with Cons show ?case by simp
qed

lemma no_error_stepWith:
  assumes "\<forall>m\<in>set (messages (ui sys)). \<not> isError m"
  shows "\<forall>m\<in>set (messages (ui (stepWith setTimeout_promise e sys))). \<not> isError m"
proof (cases e)
  case (TimerFires now date)
  with assms show ?thesis
    by (cases "inflight sys")
       (simp_all add: handleSend_resume_def setTimeout_promise_def assistantMessage_def
          isError_def)
next
  case (KeyPress key shiftKey now date)
  with assms show ?thesis
    by (simp add: handleKeyPress_def handleSend_def launch_def userMessage_def isError_def)
next
  case (ClickSend now date)
  with assms show ?thesis
    by (simp add: handleSend_def launch_def userMessage_def isError_def)
qed (use assms in \<open>simp_all add: setInput_def handleSampleQuestion_def\<close>)

lemma no_error_run:
  "\<forall>m\<in>set (messages (ui sys)). \<not> isError m \<Longrightarrow>
   \<forall>m\<in>set (messages (ui (runWith setTimeout_promise es sys))). \<not> isError m"
proof (induction es arbitrary: sys)
  case Nil
  then show ?case by simp
next
  case (Cons e es)
  from Cons.prems have "\<forall>m\<in>set (messages (ui (stepWith setTimeout_promise e sys))). \<not> isError m"
    by (rule no_error_stepWith)
  then show ?case using Cons.IH by simp
qed

lemma no_error_mount: "\<forall>m\<in>set (messages (ui (mount date))). \<not> isError m"
  by (simp add: mount_def ChatInterface_def isError_def)

lemma submit_then_timer:
  assumes inv: "outstanding_ok sys"
    and idle: "\<not> isLoading (ui sys)"
    and nonblank: "truthy (trim (input (ui sys)))"
    and send: "ev = ClickSend n1 d1 \<or> ev = KeyPress (js ''Enter'') False n1 d1"
    and quiet: "\<forall>n d. TimerFires n d \<notin> set mid"
  shows "runWith aw (ev # mid @ [TimerFires n2 d2]) sys =
           \<lparr>ui = handleSend_resume (aw (input (ui sys))) n2 d2 (input (ui sys))
                   (fst (handleSend n1 d1 (ui sys))),
            inflight = []\<rparr>"
proof -
  let ?t = "input (ui sys)"
  let ?sys1 = "\<lparr>ui = fst (handleSend n1 d1 (ui sys)), inflight = [?t]\<rparr>"
  from inv idle have empty: "inflight sys = []" by (simp add: outstanding_ok_def)
  have hs: "handleSend n1 d1 (ui sys) =
      ((ui sys)\<lparr>messages := messages (ui sys) @ [userMessage n1 d1 ?t], input := [],
                isLoading := True\<rparr>, Some ?t)"
    by (rule handleSend_pass [OF nonblank idle])
  have "stepWith aw ev sys = ?sys1"
    using send idle nonblank empty hs
    by (auto simp add: send_disabled_def textarea_disabled_def launch_def handleKeyPress_def)
  moreover have "isLoading (ui ?sys1)" using hs by simp
  then have "runWith aw mid ?sys1 = ?sys1" using quiet by (rule loading_run_idle)
  ultimately show ?thesis by (simp add: runWith_append)
qed

lemma after_submit_hi:
  "runWith aw [Change (js ''hi''), ClickSend 5 7] (mount 0) =
     \<lparr>ui = (ChatInterface 0)\<lparr>messages := messages (ChatInterface 0) @ [userMessage 5 7 (js ''hi'')],
                              input := [], isLoading := True\<rparr>,
      inflight = [js ''hi'']\<rparr>"
  using trim_hi
  by (simp add: mount_def ChatInterface_def textarea_disabled_def send_disabled_def setInput_def
        launch_def handleSend_def truthy_def)

subsection \<open>Claims about the handlers\<close>

text \<open>
  C1. For every string \<open>t\<close> whose trim is not empty, \<^verbatim>\<open>handleSend\<close> called while
  \<^verbatim>\<open>isLoading\<close> is false and \<^verbatim>\<open>input\<close> is \<open>t\<close> appends exactly one message, of
  role user and content \<open>t\<close>, at the end of \<^verbatim>\<open>messages\<close>, sets \<^verbatim>\<open>input\<close> to the
  empty string and \<^verbatim>\<open>isLoading\<close> to true, and suspends with \<open>t\<close> captured.
\<close>

theorem submit_accepted:
  assumes "trim t \<noteq> []" and "\<not> isLoading s" and "input s = t"
  shows "\<exists>m. handleSend now date s =
              (s\<lparr>messages := messages s @ [m], input := [], isLoading := True\<rparr>, Some t)
            \<and> role m = User \<and> content m = t \<and> \<not> isError m"
proof -
  let ?m = "userMessage now date t"
  from assms have "handleSend now date s =
      (s\<lparr>messages := messages s @ [?m], input := [], isLoading := True\<rparr>, Some t)"
    by (simp add: handleSend_pass truthy_def)
  moreover have "role ?m = User \<and> content ?m = t \<and> \<not> isError ?m"
    by (simp add: userMessage_def isError_def)
  ultimately show ?thesis by blast
qed

theorem submit_accepted_witness:
  "trim (js ''hi'') \<noteq> [] \<and>
   (\<exists>m. handleSend 5 7 (setInput (js ''hi'') (ChatInterface 0)) =
          ((setInput (js ''hi'') (ChatInterface 0))
             \<lparr>messages := messages (setInput (js ''hi'') (ChatInterface 0)) @ [m],
              input := [], isLoading := True\<rparr>, Some (js ''hi''))
        \<and> role m = User \<and> content m = js ''hi'' \<and> \<not> isError m)"
proof -
  have h2: "\<not> isLoading (setInput (js ''hi'') (ChatInterface 0))"
    by (simp add: setInput_def ChatInterface_def)
  have h3: "input (setInput (js ''hi'') (ChatInterface 0)) = js ''hi''"
    by (simp add: setInput_def)
  show ?thesis
    by (rule conjI [OF trim_hi submit_accepted [OF trim_hi h2 h3]])
qed

text \<open>
  C2. While \<^verbatim>\<open>isLoading\<close> is true, \<^verbatim>\<open>handleSend\<close> returns at its guard: the state
  (messages and input included) is unchanged and no call is suspended, so nothing is
  queued. The same holds for a click on the send button and for any key press in the
  text area.
\<close>

theorem submit_while_awaiting:
  assumes "isLoading (ui sys)"
  shows "handleSend now date (ui sys) = (ui sys, None)
       \<and> stepWith aw (ClickSend now date) sys = sys
       \<and> stepWith aw (KeyPress key shiftKey now date) sys = sys"
  using assms
  by (simp add: handleSend_guard send_disabled_def textarea_disabled_def)

theorem submit_while_awaiting_witness:
  "isLoading (ui \<lparr>ui = fst (handleSend 5 7 (setInput (js ''hi'') (ChatInterface 0))),
                  inflight = [js ''hi'']\<rparr>)
   \<and> handleSend 9 9 (fst (handleSend 5 7 (setInput (js ''hi'') (ChatInterface 0)))) =
       (fst (handleSend 5 7 (setInput (js ''hi'') (ChatInterface 0))), None)"
proof -
  let ?sys = "\<lparr>ui = fst (handleSend 5 7 (setInput (js ''hi'') (ChatInterface 0))),
               inflight = [js ''hi'']\<rparr>"
  have h: "isLoading (ui ?sys)"
    using trim_hi by (simp add: handleSend_def setInput_def ChatInterface_def truthy_def)
  from submit_while_awaiting [OF h, of 9 9] h show ?thesis by simp
qed

text \<open>
  C5. When \<^verbatim>\<open>input\<close> is empty or consists of white space only, \<^verbatim>\<open>handleSend\<close>
  leaves every state cell as it was, whatever \<^verbatim>\<open>isLoading\<close> is: no message (and no
  error message) is appended, \<^verbatim>\<open>isLoading\<close> is not set, \<^verbatim>\<open>input\<close> is not cleared,
  and no call is suspended.
\<close>

theorem blank_submit_rejected:
  assumes "\<forall>c\<in>set (input s). isWhiteSpace c"
  shows "handleSend now date s = (s, None)"
proof -
  from assms have "trim (input s) = []" by (simp add: trim_Nil_iff)
  then show ?thesis by (simp add: handleSend_guard truthy_def)
qed

theorem blank_submit_rejected_witness:
  "isWhiteSpace 0x20 \<and> isWhiteSpace 0x0A
   \<and> handleSend 5 7 (setInput [0x20, 0x0A] (ChatInterface 0)) =
       (setInput [0x20, 0x0A] (ChatInterface 0), None)"
proof -
  have sp: "isWhiteSpace 0x20" and lf: "isWhiteSpace 0x0A"
    by (simp_all add: isWhiteSpace_def)
  then have h: "\<forall>c\<in>set (input (setInput [0x20, 0x0A] (ChatInterface 0))). isWhiteSpace c"
    by (simp add: setInput_def)
  show ?thesis by (intro conjI sp lf blank_submit_rejected [OF h])
qed

text \<open>
  C3. When the awaited promise is fulfilled, the rest of \<^verbatim>\<open>handleSend\<close> appends exactly
  one message, of role assistant and without the error flag, and sets \<^verbatim>\<open>isLoading\<close>
  to false; no other cell changes. In the event loop this is what the firing timer does
  for the oldest suspended call. For an accepted submission, \<^verbatim>\<open>isLoading\<close> is true
  in the state that \<^verbatim>\<open>handleSend\<close> left and false after the resolution, and
  \<^verbatim>\<open>messages\<close> is longer by one.
\<close>

theorem resolve_appends_reply:
  "(\<exists>m. handleSend_resume Fulfilled now date inp s =
           s\<lparr>messages := messages s @ [m], isLoading := False\<rparr>
         \<and> role m = Assistant \<and> \<not> isError m)
   \<and> (inflight sys = inp # rest \<and> aw inp = Fulfilled \<longrightarrow>
        stepWith aw (TimerFires now date) sys =
          \<lparr>ui = handleSend_resume Fulfilled now date inp (ui sys), inflight = rest\<rparr>)
   \<and> (handleSend now0 date0 s0 = (s1, Some inp) \<longrightarrow>
        isLoading s1
        \<and> \<not> isLoading (handleSend_resume Fulfilled now date inp s1)
        \<and> length (messages (handleSend_resume Fulfilled now date inp s1))
            = Suc (length (messages s1)))"
proof -
  let ?m = "assistantMessage now date inp"
  have "handleSend_resume Fulfilled now date inp s =
          s\<lparr>messages := messages s @ [?m], isLoading := False\<rparr>"
    by (simp add: handleSend_resume_def)
  moreover have "role ?m = Assistant \<and> \<not> isError ?m"
    by (simp add: assistantMessage_def isError_def)
  ultimately have 1: "\<exists>m. handleSend_resume Fulfilled now date inp s =
           s\<lparr>messages := messages s @ [m], isLoading := False\<rparr>
         \<and> role m = Assistant \<and> \<not> isError m" by blast
  have 2: "inflight sys = inp # rest \<and> aw inp = Fulfilled \<longrightarrow>
        stepWith aw (TimerFires now date) sys =
          \<lparr>ui = handleSend_resume Fulfilled now date inp (ui sys), inflight = rest\<rparr>"
    by simp
  have 3: "handleSend now0 date0 s0 = (s1, Some inp) \<longrightarrow>
        isLoading s1
        \<and> \<not> isLoading (handleSend_resume Fulfilled now date inp s1)
        \<and> length (messages (handleSend_resume Fulfilled now date inp s1))
            = Suc (length (messages s1))"
    by (auto simp add: handleSend_def handleSend_resume_def split: if_splits)
  from 1 2 3 show ?thesis by blast
qed

theorem resolve_appends_reply_witness:
  "isLoading (ui (runWith setTimeout_promise [Change (js ''hi''), ClickSend 5 7] (mount 0)))
   \<and> inflight (runWith setTimeout_promise [Change (js ''hi''), ClickSend 5 7] (mount 0))
       = [js ''hi'']
   \<and> setTimeout_promise (js ''hi'') = Fulfilled
   \<and> \<not> isLoading (ui (stepWith setTimeout_promise (TimerFires 2005 2007)
          (runWith setTimeout_promise [Change (js ''hi''), ClickSend 5 7] (mount 0))))
   \<and> (\<exists>m. messages (ui (stepWith setTimeout_promise (TimerFires 2005 2007)
              (runWith setTimeout_promise [Change (js ''hi''), ClickSend 5 7] (mount 0))))
            = messages (ui (runWith setTimeout_promise [Change (js ''hi''), ClickSend 5 7]
                (mount 0))) @ [m]
          \<and> role m = Assistant \<and> \<not> isError m)
   \<and> length (messages (ui (stepWith setTimeout_promise (TimerFires 2005 2007)
          (runWith setTimeout_promise [Change (js ''hi''), ClickSend 5 7] (mount 0))))) = 3"
proof -
  let ?sys = "runWith setTimeout_promise [Change (js ''hi''), ClickSend 5 7] (mount 0)"
  let ?sys' = "stepWith setTimeout_promise (TimerFires 2005 2007) ?sys"
  have loading: "isLoading (ui ?sys)" by (simp only: after_submit_hi) simp
  have queue: "inflight ?sys = js ''hi'' # []" by (simp only: after_submit_hi) simp
  have len: "length (messages (ui ?sys)) = 2"
    by (simp only: after_submit_hi) (simp add: ChatInterface_def)
  have ok: "setTimeout_promise (js ''hi'') = Fulfilled" by (simp add: setTimeout_promise_def)
  note inst = resolve_appends_reply [where now = 2005 and date = 2007 and inp = "js ''hi''"
      and s = "ui ?sys" and sys = ?sys and rest = "[]" and aw = setTimeout_promise]
  from inst queue ok
  have fire: "?sys' = \<lparr>ui = handleSend_resume Fulfilled 2005 2007 (js ''hi'') (ui ?sys),
                        inflight = []\<rparr>"
    by blast
  from inst obtain m where
    m: "handleSend_resume Fulfilled 2005 2007 (js ''hi'') (ui ?sys) =
          (ui ?sys)\<lparr>messages := messages (ui ?sys) @ [m], isLoading := False\<rparr>"
    and r: "role m = Assistant" and e: "\<not> isError m"
    by blast
  from fire m have ui': "ui ?sys' = (ui ?sys)\<lparr>messages := messages (ui ?sys) @ [m], isLoading := False\<rparr>"
    by simp
  have a: "\<not> isLoading (ui ?sys')" by (simp only: ui') simp
  have b: "messages (ui ?sys') = messages (ui ?sys) @ [m]" by (simp only: ui') simp
  have c: "length (messages (ui ?sys')) = 3" using len by (simp only: b) simp
  from loading queue ok a b r e c show ?thesis by blast
qed

text \<open>
  C4. When the awaited promise is rejected, the \<^verbatim>\<open>catch\<close> block appends exactly one
  message, of role assistant, with the error flag and with the notice of the source, a
  text that depends neither on the submission nor on the state; \<^verbatim>\<open>finally\<close> sets
  \<^verbatim>\<open>isLoading\<close> to false. The function returns a state (nothing is thrown further),
  and in that state a new non-blank input is accepted by \<^verbatim>\<open>handleSend\<close>. For an
  accepted submission, \<^verbatim>\<open>isLoading\<close> is true in the state that \<^verbatim>\<open>handleSend\<close>
  left and false after the failure, and \<^verbatim>\<open>messages\<close> is longer by one.
\<close>

theorem failure_appends_error_notice:
  "(\<exists>m. handleSend_resume Rejected now date inp s =
           s\<lparr>messages := messages s @ [m], isLoading := False\<rparr>
         \<and> role m = Assistant \<and> isError m \<and> content m = error_text
         \<and> content m = js ''I'm sorry, I encountered an error processing your request. Please try again or check if the backend service is running.'')
   \<and> (inflight sys = inp # rest \<and> aw inp = Rejected \<longrightarrow>
        stepWith aw (TimerFires now date) sys =
          \<lparr>ui = handleSend_resume Rejected now date inp (ui sys), inflight = rest\<rparr>)
   \<and> (trim t \<noteq> [] \<longrightarrow>
        snd (handleSend now' date' (setInput t (handleSend_resume Rejected now date inp s)))
          = Some t)
   \<and> (handleSend now0 date0 s0 = (s1, Some inp) \<longrightarrow>
        isLoading s1
        \<and> \<not> isLoading (handleSend_resume Rejected now date inp s1)
        \<and> length (messages (handleSend_resume Rejected now date inp s1))
            = Suc (length (messages s1)))"
proof -
  let ?m = "errorMessage now date"
  have "handleSend_resume Rejected now date inp s =
          s\<lparr>messages := messages s @ [?m], isLoading := False\<rparr>"
    by (simp add: handleSend_resume_def)
  moreover have "role ?m = Assistant \<and> isError ?m \<and> content ?m = error_text"
    by (simp add: errorMessage_def isError_def)
  moreover have "content ?m = js ''I'm sorry, I encountered an error processing your request. Please try again or check if the backend service is running.''"
    by (simp only: errorMessage_def error_text_def message.simps)
  ultimately have 1: "\<exists>m. handleSend_resume Rejected now date inp s =
           s\<lparr>messages := messages s @ [m], isLoading := False\<rparr>
         \<and> role m = Assistant \<and> isError m \<and> content m = error_text
         \<and> content m = js ''I'm sorry, I encountered an error processing your request. Please try again or check if the backend service is running.''"
    by blast
  have 2: "inflight sys = inp # rest \<and> aw inp = Rejected \<longrightarrow>
        stepWith aw (TimerFires now date) sys =
          \<lparr>ui = handleSend_resume Rejected now date inp (ui sys), inflight = rest\<rparr>"
    by simp
  have 3: "trim t \<noteq> [] \<longrightarrow>
        snd (handleSend now' date' (setInput t (handleSend_resume Rejected now date inp s)))
          = Some t"
    by (simp add: handleSend_def setInput_def handleSend_resume_def truthy_def)
  have 4: "handleSend now0 date0 s0 = (s1, Some inp) \<longrightarrow>
        isLoading s1
        \<and> \<not> isLoading (handleSend_resume Rejected now date inp s1)
        \<and> length (messages (handleSend_resume Rejected now date inp s1))
            = Suc (length (messages s1))"
    by (auto simp add: handleSend_def handleSend_resume_def split: if_splits)
  from 1 2 3 4 show ?thesis by blast
qed

theorem failure_appends_error_notice_witness:
  "isLoading (ui (runWith (\<lambda>_. Rejected) [Change (js ''hi''), ClickSend 5 7] (mount 0)))
   \<and> inflight (runWith (\<lambda>_. Rejected) [Change (js ''hi''), ClickSend 5 7] (mount 0))
       = [js ''hi'']
   \<and> \<not> isLoading (ui (stepWith (\<lambda>_. Rejected) (TimerFires 2005 2007)
          (runWith (\<lambda>_. Rejected) [Change (js ''hi''), ClickSend 5 7] (mount 0))))
   \<and> (\<exists>m. messages (ui (stepWith (\<lambda>_. Rejected) (TimerFires 2005 2007)
              (runWith (\<lambda>_. Rejected) [Change (js ''hi''), ClickSend 5 7] (mount 0))))
            = messages (ui (runWith (\<lambda>_. Rejected) [Change (js ''hi''), ClickSend 5 7]
                (mount 0))) @ [m]
          \<and> role m = Assistant \<and> isError m
          \<and> content m = js ''I'm sorry, I encountered an error processing your request. Please try again or check if the backend service is running.'')
   \<and> length (messages (ui (stepWith (\<lambda>_. Rejected) (TimerFires 2005 2007)
          (runWith (\<lambda>_. Rejected) [Change (js ''hi''), ClickSend 5 7] (mount 0))))) = 3
   \<and> trim (js ''hi'') \<noteq> []
   \<and> snd (handleSend 3000 3000 (setInput (js ''hi'')
        (ui (stepWith (\<lambda>_. Rejected) (TimerFires 2005 2007)
          (runWith (\<lambda>_. Rejected) [Change (js ''hi''), ClickSend 5 7] (mount 0))))))
       = Some (js ''hi'')"
proof -
  let ?sys = "runWith (\<lambda>_. Rejected) [Change (js ''hi''), ClickSend 5 7] (mount 0)"
  let ?sys' = "stepWith (\<lambda>_. Rejected) (TimerFires 2005 2007) ?sys"
  let ?text = "js ''I'm sorry, I encountered an error processing your request. Please try again or check if the backend service is running.''"
  have loading: "isLoading (ui ?sys)" by (simp only: after_submit_hi) simp
  have queue: "inflight ?sys = js ''hi'' # []" by (simp only: after_submit_hi) simp
  have len: "length (messages (ui ?sys)) = 2"
    by (simp only: after_submit_hi) (simp add: ChatInterface_def)
  have no: "(\<lambda>_. Rejected) (js ''hi'') = Rejected" by simp
  note inst = failure_appends_error_notice [where now = 2005 and date = 2007
      and inp = "js ''hi''" and s = "ui ?sys" and sys = ?sys and rest = "[]"
      and aw = "\<lambda>_. Rejected" and t = "js ''hi''" and now' = 3000 and date' = 3000]
  from inst queue no
  have fire: "?sys' = \<lparr>ui = handleSend_resume Rejected 2005 2007 (js ''hi'') (ui ?sys),
                        inflight = []\<rparr>"
    by blast
  from inst obtain m where
    m: "handleSend_resume Rejected 2005 2007 (js ''hi'') (ui ?sys) =
          (ui ?sys)\<lparr>messages := messages (ui ?sys) @ [m], isLoading := False\<rparr>"
    and r: "role m = Assistant" and e: "isError m" and c: "content m = ?text"
    by blast
  from inst trim_hi
  have again: "snd (handleSend 3000 3000 (setInput (js ''hi'')
        (handleSend_resume Rejected 2005 2007 (js ''hi'') (ui ?sys)))) = Some (js ''hi'')"
    by blast
  have ui_eq: "ui ?sys' = handleSend_resume Rejected 2005 2007 (js ''hi'') (ui ?sys)"
    by (simp only: fire) simp
  have ui': "ui ?sys' = (ui ?sys)\<lparr>messages := messages (ui ?sys) @ [m], isLoading := False\<rparr>"
    by (simp only: ui_eq m)
  have a: "\<not> isLoading (ui ?sys')" by (simp only: ui') simp
  have b: "messages (ui ?sys') = messages (ui ?sys) @ [m]" by (simp only: ui') simp
  have l: "length (messages (ui ?sys')) = 3" using len by (simp only: b) simp
  have again': "snd (handleSend 3000 3000 (setInput (js ''hi'') (ui ?sys'))) = Some (js ''hi'')"
    using again by (simp only: ui_eq)
  from loading queue a b r e c l trim_hi again' show ?thesis by blast
qed

subsection \<open>Claims about runs of the component\<close>

text \<open>
  C6. \<^verbatim>\<open>messages\<close> is append-only. After \<^verbatim>\<open>setInput\<close>,
  \<^verbatim>\<open>handleSampleQuestion\<close>, \<^verbatim>\<open>handleSend\<close> and the rest of \<^verbatim>\<open>handleSend\<close>
  (fulfilled or rejected), and after any turn of the event loop, the former list is a
  prefix of the new one. Over a run, what the first events have produced is a prefix of
  what the whole run produces, so every message keeps its position and all its fields,
  and later appends come after earlier ones.
\<close>

theorem messages_append_only:
  "prefix (messages s) (messages (setInput v s))
   \<and> prefix (messages s) (messages (handleSampleQuestion q s))
   \<and> prefix (messages s) (messages (fst (handleSend now date s)))
   \<and> prefix (messages s) (messages (handleSend_resume outcome now date inp s))
   \<and> prefix (messages (ui sys)) (messages (ui (stepWith aw e sys)))
   \<and> prefix (messages (ui (runWith aw es1 sys))) (messages (ui (runWith aw (es1 @ es2) sys)))
   \<and> (\<forall>i < length (messages (ui (runWith aw es1 sys))).
         messages (ui (runWith aw (es1 @ es2) sys)) ! i = messages (ui (runWith aw es1 sys)) ! i)"
proof -
  have run: "prefix (messages (ui (runWith aw es1 sys)))
                    (messages (ui (runWith aw (es1 @ es2) sys)))"
    by (simp add: runWith_append runWith_prefix)
  then have "\<forall>i < length (messages (ui (runWith aw es1 sys))).
         messages (ui (runWith aw (es1 @ es2) sys)) ! i = messages (ui (runWith aw es1 sys)) ! i"
    by (auto simp add: prefix_def nth_append)
  moreover have "prefix (messages s) (messages (setInput v s))"
    by (simp add: setInput_def)
  moreover have "prefix (messages s) (messages (handleSampleQuestion q s))"
    by (simp add: handleSampleQuestion_def setInput_def)
  ultimately show ?thesis
    using run handleSend_prefix resume_prefix stepWith_prefix by blast
qed

theorem messages_append_only_witness:
  "0 < length (messages (ui (runWith setTimeout_promise [Change (js ''hi'')] (mount 0))))
   \<and> messages (ui (runWith setTimeout_promise ([Change (js ''hi'')] @ [ClickSend 5 7]) (mount 0))) ! 0
       = messages (ui (runWith setTimeout_promise [Change (js ''hi'')] (mount 0))) ! 0"
proof -
  have h: "0 < length (messages (ui (runWith setTimeout_promise [Change (js ''hi'')] (mount 0))))"
    by (simp add: mount_def ChatInterface_def textarea_disabled_def setInput_def)
  from messages_append_only [where aw = setTimeout_promise and ?es1.0 = "[Change (js ''hi'')]"
      and ?es2.0 = "[ClickSend 5 7]" and sys = "mount 0"]
  have "\<forall>i < length (messages (ui (runWith setTimeout_promise [Change (js ''hi'')] (mount 0)))).
         messages (ui (runWith setTimeout_promise ([Change (js ''hi'')] @ [ClickSend 5 7]) (mount 0))) ! i
         = messages (ui (runWith setTimeout_promise [Change (js ''hi'')] (mount 0))) ! i"
    by blast
  with h show ?thesis by blast
qed

text \<open>
  C7. The freshly mounted component has exactly one message, the greeting of role
  assistant, and \<^verbatim>\<open>isLoading\<close> is false; after any run from there, however the
  awaited promises settle, \<^verbatim>\<open>messages\<close> is not empty.
\<close>

theorem fresh_session:
  "(\<exists>m. messages (ChatInterface date) = [m] \<and> role m = Assistant \<and> content m = greeting
        \<and> \<not> isError m)
   \<and> \<not> isLoading (ChatInterface date)
   \<and> ui (mount date) = ChatInterface date
   \<and> messages (ui (runWith aw es (mount date))) \<noteq> []"
proof -
  have "prefix (messages (ui (mount date))) (messages (ui (runWith aw es (mount date))))"
    by (rule runWith_prefix)
  then have "messages (ui (runWith aw es (mount date))) \<noteq> []"
    by (auto simp add: mount_def ChatInterface_def)
  then show ?thesis
    by (simp add: mount_def ChatInterface_def isError_def)
qed

theorem fresh_session_witness:
  "messages (ui (runWith setTimeout_promise [Change (js ''hi''), ClickSend 5 7] (mount 0))) \<noteq> []"
  using fresh_session [of 0 setTimeout_promise "[Change (js ''hi''), ClickSend 5 7]"]
  by blast

text \<open>
  C8. The ids are the decimal digits of clock readings: \<^verbatim>\<open>Date.now()\<close> for a user
  message, \<^verbatim>\<open>Date.now() + 1\<close> for a reply. They are used as React keys, which must
  be distinct, but two messages can get the same id. In the first run below the user
  submits again one millisecond after the reply was built; in the second the wall clock
  is set back during the wait, so that the reply is built one millisecond before the
  reading of the submission.
\<close>

theorem duplicate_message_ids:
  "map id_msg (messages (ui (run
      [Change (js ''a''), ClickSend 1700000000000 1700000000000,
       TimerFires 1700000002000 1700000002000,
       Change (js ''b''), ClickSend 1700000002001 1700000002001]
      (mount 1699999990000))))
   = [js ''1'', js ''1700000000000'', js ''1700000002001'', js ''1700000002001'']
   \<and> map id_msg (messages (ui (run
      [Change (js ''a''), ClickSend 1700000000000 1700000000000,
       TimerFires 1699999999999 1699999999999]
      (mount 1699999990000))))
   = [js ''1'', js ''1700000000000'', js ''1700000000000'']"
  by (simp add: run_def mount_def ChatInterface_def textarea_disabled_def send_disabled_def
        setInput_def launch_def handleSend_def handleSend_resume_def setTimeout_promise_def
        truthy_def trim_def js_def isWhiteSpace_def userMessage_def assistantMessage_def
        toString_def digits.simps)

text \<open>
  C9, as stated, fails: while a call is outstanding the text area is disabled, so a text
  edit does not reach \<^verbatim>\<open>setInput\<close> and \<^verbatim>\<open>input\<close> keeps its value.
\<close>

theorem edit_while_loading_counterexample:
  "isLoading (ui (run [Change (js ''hi''), ClickSend 1000 1000] (mount 0)))
   \<and> input (ui (step (Change (js ''a''))
               (run [Change (js ''hi''), ClickSend 1000 1000] (mount 0)))) \<noteq> js ''a''"
  by (simp add: run_def step_def mount_def ChatInterface_def textarea_disabled_def
        send_disabled_def setInput_def launch_def handleSend_def truthy_def trim_def js_def
        isWhiteSpace_def)

text \<open>
  C9, amended. \<^verbatim>\<open>setInput\<close> (and \<^verbatim>\<open>handleSampleQuestion\<close>) replaces
  \<^verbatim>\<open>input\<close> in every state and changes neither \<^verbatim>\<open>messages\<close> nor
  \<^verbatim>\<open>isLoading\<close>. The text area and the sample question buttons call it only while
  \<^verbatim>\<open>isLoading\<close> is false; while it is true they are disabled and the state stays
  as it is.
\<close>

theorem setInput_replaces_input:
  "input (setInput v s) = v
   \<and> messages (setInput v s) = messages s
   \<and> isLoading (setInput v s) = isLoading s
   \<and> handleSampleQuestion v s = setInput v s
   \<and> stepWith aw (Change v) sys =
       (if isLoading (ui sys) then sys else sys\<lparr>ui := (ui sys)\<lparr>input := v\<rparr>\<rparr>)
   \<and> (i < length sample_questions \<longrightarrow>
        stepWith aw (ClickSample i) sys =
          (if isLoading (ui sys) then sys
           else sys\<lparr>ui := (ui sys)\<lparr>input := sample_questions ! i\<rparr>\<rparr>))"
  by (simp add: setInput_def handleSampleQuestion_def textarea_disabled_def sample_disabled_def)

theorem setInput_replaces_input_witness:
  "(2::nat) < length sample_questions
   \<and> stepWith setTimeout_promise (ClickSample 2) (mount 0) =
       (mount 0)\<lparr>ui := (ui (mount 0))\<lparr>input := js ''Show me recent GDP growth data''\<rparr>\<rparr>"
proof -
  have h: "(2::nat) < length sample_questions" by (simp add: sample_questions_def)
  have l: "\<not> isLoading (ui (mount 0))" by (simp add: mount_def ChatInterface_def)
  have q: "sample_questions ! 2 = js ''Show me recent GDP growth data''"
    by (simp add: sample_questions_def)
  from setInput_replaces_input [where aw = setTimeout_promise and sys = "mount 0" and i = 2] h
  have "stepWith setTimeout_promise (ClickSample 2) (mount 0) =
          (if isLoading (ui (mount 0)) then mount 0
           else (mount 0)\<lparr>ui := (ui (mount 0))\<lparr>input := sample_questions ! 2\<rparr>\<rparr>)"
    by blast
  with h l q show ?thesis by simp
qed

text \<open>
  C10. The promise that the source awaits is always fulfilled. Hence no run of the
  component from its mount produces a message with the error flag. Moreover, from any
  state reached by such a run in which a submission is accepted (by the send button or
  the Enter key), the events before the timer fires change nothing, and when it fires
  the state holds the user message followed by one reply without the error flag, whose
  content is the fixed template around the submitted text; \<^verbatim>\<open>isLoading\<close> is false
  again.
\<close>

theorem failure_branch_unreachable:
  "setTimeout_promise inp = Fulfilled
   \<and> (\<forall>m\<in>set (messages (ui (run es (mount date)))). \<not> isError m)
   \<and> (sys = run es (mount date) \<and> t = input (ui sys)
       \<and> \<not> isLoading (ui sys) \<and> truthy (trim t)
       \<and> (ev = ClickSend n1 d1 \<or> ev = KeyPress (js ''Enter'') False n1 d1)
       \<and> (\<forall>n d. TimerFires n d \<notin> set mid)
      \<longrightarrow> (\<exists>m. ui (run (ev # mid @ [TimerFires n2 d2]) sys) =
                  (ui sys)\<lparr>messages := messages (ui sys) @ [userMessage n1 d1 t, m],
                           input := [], isLoading := False\<rparr>
               \<and> content m = reply_head @ t @ reply_tail
               \<and> role m = Assistant \<and> \<not> isError m))"
proof -
  have 1: "setTimeout_promise inp = Fulfilled" by (simp add: setTimeout_promise_def)
  have 2: "\<forall>m\<in>set (messages (ui (run es (mount date)))). \<not> isError m"
    unfolding run_def by (rule no_error_run [OF no_error_mount])
  have 3: "\<exists>m. ui (run (ev # mid @ [TimerFires n2 d2]) sys) =
                  (ui sys)\<lparr>messages := messages (ui sys) @ [userMessage n1 d1 t, m],
                           input := [], isLoading := False\<rparr>
               \<and> content m = reply_head @ t @ reply_tail
               \<and> role m = Assistant \<and> \<not> isError m"
    if sys: "sys = run es (mount date)" and t: "t = input (ui sys)"
      and idle: "\<not> isLoading (ui sys)" and nonblank: "truthy (trim t)"
      and send: "ev = ClickSend n1 d1 \<or> ev = KeyPress (js ''Enter'') False n1 d1"
      and quiet: "\<forall>n d. TimerFires n d \<notin> set mid"
  proof -
    let ?m = "assistantMessage n2 d2 t"
    have inv: "outstanding_ok sys"
      unfolding sys run_def by (rule outstanding_ok_runWith [OF outstanding_ok_mount])
    from nonblank t have nb: "truthy (trim (input (ui sys)))" by simp
    have "run (ev # mid @ [TimerFires n2 d2]) sys =
           \<lparr>ui = handleSend_resume (setTimeout_promise (input (ui sys))) n2 d2 (input (ui sys))
                   (fst (handleSend n1 d1 (ui sys))),
            inflight = []\<rparr>"
      unfolding run_def by (rule submit_then_timer [OF inv idle nb send quiet])
    then have "ui (run (ev # mid @ [TimerFires n2 d2]) sys) =
                  (ui sys)\<lparr>messages := messages (ui sys) @ [userMessage n1 d1 t, ?m],
                           input := [], isLoading := False\<rparr>"
      using idle nb t
      by (simp add: handleSend_pass handleSend_resume_def setTimeout_promise_def)
    moreover have "content ?m = reply_head @ t @ reply_tail \<and> role ?m = Assistant \<and> \<not> isError ?m"
      by (simp add: assistantMessage_def isError_def)
    ultimately show ?thesis by blast
  qed
  from 1 2 3 show ?thesis by blast
qed

theorem failure_branch_unreachable_witness:
  "\<not> isLoading (ui (run [Change (js ''hi'')] (mount 0)))
   \<and> truthy (trim (input (ui (run [Change (js ''hi'')] (mount 0)))))
   \<and> (\<exists>m. ui (run (ClickSend 5 7 # [ClickSample 0] @ [TimerFires 2005 2007])
                  (run [Change (js ''hi'')] (mount 0))) =
            (ui (run [Change (js ''hi'')] (mount 0)))
              \<lparr>messages := messages (ui (run [Change (js ''hi'')] (mount 0)))
                             @ [userMessage 5 7 (js ''hi''), m],
               input := [], isLoading := False\<rparr>
          \<and> content m = reply_head @ js ''hi'' @ reply_tail
          \<and> role m = Assistant \<and> \<not> isError m)"
proof -
  let ?sys = "run [Change (js ''hi'')] (mount 0)"
  have t: "input (ui ?sys) = js ''hi''"
    by (simp add: run_def mount_def ChatInterface_def textarea_disabled_def setInput_def)
  have idle: "\<not> isLoading (ui ?sys)"
    by (simp add: run_def mount_def ChatInterface_def textarea_disabled_def setInput_def)
  have nonblank: "truthy (trim (js ''hi''))"
    using trim_hi by (simp add: truthy_def)
  have quiet: "\<forall>n d. TimerFires n d \<notin> set [ClickSample 0]" by simp
  have same: "?sys = run [Change (js ''hi'')] (mount 0)" by (rule refl)
  have t': "js ''hi'' = input (ui ?sys)" using t by (rule sym)
  have send: "ClickSend 5 7 = ClickSend 5 7 \<or> ClickSend 5 7 = KeyPress (js ''Enter'') False 5 7"
    by simp
  from failure_branch_unreachable [of _ "[Change (js ''hi'')]" 0 ?sys "js ''hi''"
      "ClickSend 5 7" 5 7 "[ClickSample 0]" 2005 2007] same t' idle nonblank send quiet
  have "\<exists>m. ui (run (ClickSend 5 7 # [ClickSample 0] @ [TimerFires 2005 2007]) ?sys) =
            (ui ?sys)\<lparr>messages := messages (ui ?sys) @ [userMessage 5 7 (js ''hi''), m],
               input := [], isLoading := False\<rparr>
          \<and> content m = reply_head @ js ''hi'' @ reply_tail
          \<and> role m = Assistant \<and> \<not> isError m"
    by blast
  with t idle nonblank show ?thesis by simp
qed

end
